theory Spec2Isabelle
  imports Complex_Main "HOL-Library.Word"
begin

unbundle bit_operations_syntax

section \<open>Data model\<close>

text \<open>
  A Python \<open>str\<close> is a sequence of Unicode code points; it is modelled as a list of
  natural numbers (code points of a Python string are below \<open>0x110000\<close>).
  \<open>Optional[str]\<close> is \<open>ustr option\<close>, \<open>bytes\<close> a list of 8-bit words.
  Values of \<open>float32\<close> and \<open>float\<close> are modelled by the real numbers they denote:
  the arithmetic below is exact, rounding is not modelled.
\<close>

type_synonym ustr = "nat list"
type_synonym byte = "8 word"
type_synonym u64 = "64 word"

definition ustr :: "string \<Rightarrow> ustr" where
  "ustr s = map of_char s"

text \<open>The exceptions the modelled code can raise.\<close>

datatype py_error =
    AttributeError
  | ValueError
  | TypeError
  | KeyError
  | ZeroDivisionError
  | UnicodeEncodeError
  | RequestValidationError
  | DatabaseError

section \<open>Tokenizer\<close>

text \<open>
  \<^verbatim>\<open>TOKEN_RE\<close>: one or more of \<^verbatim>\<open>[A-Za-z0-9_]\<close>, or one or more code points in the
  ranges \<open>0x3040\<close> to \<open>0x30ff\<close> (Hiragana, Katakana) and \<open>0x4e00\<close> to \<open>0x9fff\<close>
  (CJK Unified Ideographs)
  (the same pattern in \<^verbatim>\<open>main.py\<close> and in \<^verbatim>\<open>scripts/import_articles.py\<close>).
\<close>

definition is_word_char :: "nat \<Rightarrow> bool" where
  "is_word_char c \<longleftrightarrow>
     (65 \<le> c \<and> c \<le> 90) \<or> (97 \<le> c \<and> c \<le> 122) \<or> (48 \<le> c \<and> c \<le> 57) \<or> c = 95"

definition is_cjk_char :: "nat \<Rightarrow> bool" where
  "is_cjk_char c \<longleftrightarrow> (0x3040 \<le> c \<and> c \<le> 0x30ff) \<or> (0x4e00 \<le> c \<and> c \<le> 0x9fff)"

text \<open>
  \<^verbatim>\<open>TOKEN_RE.findall(s)\<close>: scanning from the left, at each position the first
  alternative is tried, then the second; both are greedy and match at least one
  character; a character that starts no match is skipped.
\<close>

function TOKEN_RE_findall :: "ustr \<Rightarrow> ustr list" where
  "TOKEN_RE_findall [] = []"
| "TOKEN_RE_findall (c # cs) =
     (if is_word_char c then
        (c # takeWhile is_word_char cs) # TOKEN_RE_findall (dropWhile is_word_char cs)
      else if is_cjk_char c then
        (c # takeWhile is_cjk_char cs) # TOKEN_RE_findall (dropWhile is_cjk_char cs)
      else TOKEN_RE_findall cs)"
  by pat_completeness auto
termination
  by (relation "measure length") (auto simp: length_dropWhile_le less_Suc_eq_le)

section \<open>UTF-8 and BLAKE2b\<close>

text \<open>
  \<^verbatim>\<open>t.encode("utf-8")\<close>: one to four bytes per code point; a surrogate
  (\<open>0xD800\<close> to \<open>0xDFFF\<close>) raises \<^verbatim>\<open>UnicodeEncodeError\<close>.
\<close>

definition utf8_char :: "nat \<Rightarrow> py_error + byte list" where
  "utf8_char c =
     (if c < 0x80 then Inr [of_nat c]
      else if c < 0x800 then Inr [of_nat (0xC0 + c div 64), of_nat (0x80 + c mod 64)]
      else if 0xD800 \<le> c \<and> c \<le> 0xDFFF then Inl UnicodeEncodeError
      else if c < 0x10000 then
        Inr [of_nat (0xE0 + c div 4096), of_nat (0x80 + c div 64 mod 64),
             of_nat (0x80 + c mod 64)]
      else
        Inr [of_nat (0xF0 + c div 262144), of_nat (0x80 + c div 4096 mod 64),
             of_nat (0x80 + c div 64 mod 64), of_nat (0x80 + c mod 64)])"

fun utf8_encode :: "ustr \<Rightarrow> py_error + byte list" where
  "utf8_encode [] = Inr []"
| "utf8_encode (c # cs) =
     (case utf8_char c of
        Inl e \<Rightarrow> Inl e
      | Inr bs \<Rightarrow> (case utf8_encode cs of Inl e \<Rightarrow> Inl e | Inr rest \<Rightarrow> Inr (bs @ rest)))"

text \<open>
  \<^verbatim>\<open>hashlib.blake2b(data, digest_size=n).digest()\<close> is the standard library's
  unkeyed BLAKE2b (RFC 7693) with default parameters: no key, no salt, no
  personalisation, sequential mode. The definitions follow the RFC: initialisation
  vector, message schedule, mixing function \<open>G\<close>, compression function \<open>F\<close>, and
  the padding of the last block.
\<close>

definition blake2b_IV :: "u64 list" where
  "blake2b_IV =
     [0x6a09e667f3bcc908, 0xbb67ae8584caa73b, 0x3c6ef372fe94f82b, 0xa54ff53a5f1d36f1,
      0x510e527fade682d1, 0x9b05688c2b3e6c1f, 0x1f83d9abfb41bd6b, 0x5be0cd19137e2179]"

definition blake2b_SIGMA :: "nat list list" where
  "blake2b_SIGMA =
     [[0, 1, 2, 3, 4, 5, 6, 7, 8, 9, 10, 11, 12, 13, 14, 15],
      [14, 10, 4, 8, 9, 15, 13, 6, 1, 12, 0, 2, 11, 7, 5, 3],
      [11, 8, 12, 0, 5, 2, 15, 13, 10, 14, 3, 6, 7, 1, 9, 4],
      [7, 9, 3, 1, 13, 12, 11, 14, 2, 6, 5, 10, 4, 0, 15, 8],
      [9, 0, 5, 7, 2, 4, 10, 15, 14, 1, 11, 12, 6, 8, 3, 13],
      [2, 12, 6, 10, 0, 11, 8, 3, 4, 13, 7, 5, 15, 14, 1, 9],
      [12, 5, 1, 15, 14, 13, 4, 10, 0, 7, 6, 3, 9, 2, 8, 11],
      [13, 11, 7, 14, 12, 1, 3, 9, 5, 0, 15, 4, 8, 6, 2, 10],
      [6, 15, 14, 9, 11, 3, 0, 8, 12, 2, 13, 7, 1, 4, 10, 5],
      [10, 2, 8, 4, 7, 6, 1, 5, 15, 11, 9, 14, 3, 12, 13, 0]]"

definition blake2b_G ::
  "nat \<Rightarrow> nat \<Rightarrow> nat \<Rightarrow> nat \<Rightarrow> u64 \<Rightarrow> u64 \<Rightarrow> u64 list \<Rightarrow> u64 list" where
  "blake2b_G a b c d x y v0 =
     (let v1 = v0[a := v0 ! a + v0 ! b + x];
          v2 = v1[d := word_rotr 32 (v1 ! d XOR v1 ! a)];
          v3 = v2[c := v2 ! c + v2 ! d];
          v4 = v3[b := word_rotr 24 (v3 ! b XOR v3 ! c)];
          v5 = v4[a := v4 ! a + v4 ! b + y];
          v6 = v5[d := word_rotr 16 (v5 ! d XOR v5 ! a)];
          v7 = v6[c := v6 ! c + v6 ! d]
      in v7[b := word_rotr 63 (v7 ! b XOR v7 ! c)])"

definition blake2b_round :: "u64 list \<Rightarrow> nat list \<Rightarrow> u64 list \<Rightarrow> u64 list" where
  "blake2b_round m s v =
     (blake2b_G 3 4 9 14 (m ! (s ! 14)) (m ! (s ! 15))
     (blake2b_G 2 7 8 13 (m ! (s ! 12)) (m ! (s ! 13))
     (blake2b_G 1 6 11 12 (m ! (s ! 10)) (m ! (s ! 11))
     (blake2b_G 0 5 10 15 (m ! (s ! 8)) (m ! (s ! 9))
     (blake2b_G 3 7 11 15 (m ! (s ! 6)) (m ! (s ! 7))
     (blake2b_G 2 6 10 14 (m ! (s ! 4)) (m ! (s ! 5))
     (blake2b_G 1 5 9 13 (m ! (s ! 2)) (m ! (s ! 3))
     (blake2b_G 0 4 8 12 (m ! (s ! 0)) (m ! (s ! 1)) v))))))))"

fun word_of_bytes_le :: "byte list \<Rightarrow> u64" where
  "word_of_bytes_le [] = 0"
| "word_of_bytes_le (b # bs) = ucast b + push_bit 8 (word_of_bytes_le bs)"

fun bytes_of_word_le :: "nat \<Rightarrow> u64 \<Rightarrow> byte list" where
  "bytes_of_word_le 0 w = []"
| "bytes_of_word_le (Suc n) w = ucast w # bytes_of_word_le n (drop_bit 8 w)"

definition block_words :: "byte list \<Rightarrow> u64 list" where
  "block_words blk =
     map (\<lambda>i. word_of_bytes_le (take 8 (drop (8 * i) (blk @ replicate 128 0)))) [0..<16]"

definition blake2b_F :: "u64 list \<Rightarrow> byte list \<Rightarrow> nat \<Rightarrow> bool \<Rightarrow> u64 list" where
  "blake2b_F h blk t final =
     (let m = block_words blk;
          v0 = h @ blake2b_IV;
          v1 = v0[12 := v0 ! 12 XOR word_of_nat t];
          v2 = v1[13 := v1 ! 13 XOR word_of_nat (drop_bit 64 t)];
          v3 = (if final then v2[14 := NOT (v2 ! 14)] else v2);
          v = fold (\<lambda>i. blake2b_round m (blake2b_SIGMA ! (i mod 10))) [0..<12] v3
      in map (\<lambda>i. h ! i XOR v ! i XOR v ! (i + 8)) [0..<8])"

function blake2b_blocks :: "u64 list \<Rightarrow> nat \<Rightarrow> byte list \<Rightarrow> u64 list" where
  "blake2b_blocks h t d =
     (if length d \<le> 128 then blake2b_F h d (t + length d) True
      else blake2b_blocks (blake2b_F h (take 128 d) (t + 128) False) (t + 128) (drop 128 d))"
  by pat_completeness auto
termination
  by (relation "measure (\<lambda>(h, t, d). length d)") auto

declare blake2b_blocks.simps [simp del]

definition blake2b :: "nat \<Rightarrow> byte list \<Rightarrow> byte list" where
  "blake2b digest_size d =
     (let h0 = blake2b_IV[0 := blake2b_IV ! 0 XOR 0x01010000 XOR word_of_nat digest_size]
      in take digest_size (concat (map (bytes_of_word_le 8) (blake2b_blocks h0 0 d))))"

text \<open>\<^verbatim>\<open>int.from_bytes(h, "little")\<close>: the first byte is the least significant.\<close>

fun from_bytes_little :: "byte list \<Rightarrow> int" where
  "from_bytes_little [] = 0"
| "from_bytes_little (b # bs) = uint b + 256 * from_bytes_little bs"

section \<open>Embedding\<close>

text \<open>\<^verbatim>\<open>np.zeros(dim, dtype=np.float32)\<close> raises \<^verbatim>\<open>ValueError\<close> for a negative size.\<close>

definition np_zeros :: "int \<Rightarrow> py_error + real list" where
  "np_zeros dimen = (if dimen < 0 then Inl ValueError else Inr (replicate (nat dimen) 0))"

text \<open>
  The slot of a token, lines 34 and 35 of \<^verbatim>\<open>main.py\<close>:
  \<^verbatim>\<open>h = hashlib.blake2b(t.encode("utf-8"), digest_size=8).digest()\<close>,
  \<^verbatim>\<open>idx = int.from_bytes(h, "little") % dim\<close>. Python's \<^verbatim>\<open>%\<close> raises
  \<^verbatim>\<open>ZeroDivisionError\<close> for \<open>dim = 0\<close>; for a positive \<open>dim\<close> it is \<open>mod\<close>.
\<close>

definition token_index :: "int \<Rightarrow> ustr \<Rightarrow> py_error + nat" where
  "token_index dimen t =
     (case utf8_encode t of
        Inl e \<Rightarrow> Inl e
      | Inr bs \<Rightarrow>
          (let h = blake2b 8 bs
           in if dimen = 0 then Inl ZeroDivisionError
              else Inr (nat (from_bytes_little h mod dimen))))"

text \<open>
  The loop \<^verbatim>\<open>for t in tokens: ...; vec[idx] += 1.0\<close>. The vector has \<open>dim\<close>
  entries and \<open>0 \<le> idx < dimen\<close>, so the index is always in range.
\<close>

fun hash_features :: "int \<Rightarrow> ustr list \<Rightarrow> real list \<Rightarrow> py_error + real list" where
  "hash_features dimen [] vec = Inr vec"
| "hash_features dimen (t # ts) vec =
     (case token_index dimen t of
        Inl e \<Rightarrow> Inl e
      | Inr idx \<Rightarrow> hash_features dimen ts (vec[idx := vec ! idx + 1]))"

text \<open>\<^verbatim>\<open>np.linalg.norm(vec)\<close>: the square root of the sum of the squares.\<close>

definition linalg_norm :: "real list \<Rightarrow> real" where
  "linalg_norm vec = sqrt (\<Sum>x\<leftarrow>vec. x * x)"

text \<open>Lines 37 to 40: \<^verbatim>\<open>if norm > 0: vec /= norm\<close>.\<close>

definition normalize :: "real list \<Rightarrow> real list" where
  "normalize vec =
     (let norm = linalg_norm vec
      in if norm > 0 then map (\<lambda>x. x / norm) vec else vec)"

text \<open>
  \<^verbatim>\<open>str.lower\<close> is Python's Unicode case mapping, a total function on strings that
  the repository does not define; it is a parameter \<open>lower\<close> of the model.
  The source's parameter \<^verbatim>\<open>dim\<close> is written \<open>dimen\<close>.

  Line 31 of \<^verbatim>\<open>main.py\<close>: \<^verbatim>\<open>tokens = TOKEN_RE.findall((text or "").lower())\<close>;
  \<^verbatim>\<open>(text or "")\<close> replaces \<^verbatim>\<open>None\<close> by the empty string.
\<close>

definition tokenize :: "(ustr \<Rightarrow> ustr) \<Rightarrow> ustr option \<Rightarrow> ustr list" where
  "tokenize lower text =
     TOKEN_RE_findall (lower (case text of None \<Rightarrow> [] | Some s \<Rightarrow> s))"

text \<open>\<^verbatim>\<open>embed_text\<close> of \<^verbatim>\<open>main.py\<close>, lines 30 to 40.\<close>

definition embed_text :: "(ustr \<Rightarrow> ustr) \<Rightarrow> ustr option \<Rightarrow> int \<Rightarrow> py_error + real list" where
  "embed_text lower text dimen =
     (let tokens = tokenize lower text
      in case np_zeros dimen of
           Inl e \<Rightarrow> Inl e
         | Inr vec0 \<Rightarrow>
             (case hash_features dimen tokens vec0 of
                Inl e \<Rightarrow> Inl e
              | Inr vec \<Rightarrow> Inr (normalize vec)))"

text \<open>
  Line 33 of \<^verbatim>\<open>scripts/import_articles.py\<close>:
  \<^verbatim>\<open>tokens = TOKEN_RE.findall(text.lower())\<close>. The method is looked up on the
  argument itself, which raises \<^verbatim>\<open>AttributeError\<close> for \<^verbatim>\<open>None\<close>.
\<close>

definition import_tokenize :: "(ustr \<Rightarrow> ustr) \<Rightarrow> ustr option \<Rightarrow> py_error + ustr list" where
  "import_tokenize lower text =
     (case text of
        None \<Rightarrow> Inl AttributeError
      | Some s \<Rightarrow> Inr (TOKEN_RE_findall (lower s)))"

text \<open>\<^verbatim>\<open>embed_text\<close> of \<^verbatim>\<open>scripts/import_articles.py\<close>, lines 32 to 42.\<close>

definition import_embed_text ::
  "(ustr \<Rightarrow> ustr) \<Rightarrow> ustr option \<Rightarrow> int \<Rightarrow> py_error + real list" where
  "import_embed_text lower text dimen =
     (case import_tokenize lower text of
        Inl e \<Rightarrow> Inl e
      | Inr tokens \<Rightarrow>
          (case np_zeros dimen of
             Inl e \<Rightarrow> Inl e
           | Inr vec0 \<Rightarrow>
               (case hash_features dimen tokens vec0 of
                  Inl e \<Rightarrow> Inl e
                | Inr vec \<Rightarrow> Inr (normalize vec))))"

section \<open>Library functions and the storage engine\<close>

text \<open>
  Functions of the Python library and of the storage engine that the source calls but
  does not define are the fields of a record; every theorem below holds for every such
  record. \<open>'ts\<close> is the type of \<^verbatim>\<open>datetime\<close> values.
  \<^item> \<open>str_lower\<close>: \<^verbatim>\<open>str.lower\<close>;
  \<^item> \<open>int_of_str\<close>: \<^verbatim>\<open>int(s)\<close> for a string \<open>s\<close>, \<open>None\<close> where it raises
    \<^verbatim>\<open>ValueError\<close>;
  \<^item> \<open>fromisoformat\<close>: \<^verbatim>\<open>datetime.fromisoformat\<close>, \<open>None\<close> where it raises;
  \<^item> \<open>isoformat\<close>: \<^verbatim>\<open>datetime.isoformat\<close>;
  \<^item> \<open>distance_op\<close>: the operator \<^verbatim>\<open><=>\<close> of the vector extension on two vectors
    of the same dimension, \<open>None\<close> where it yields \<^verbatim>\<open>NaN\<close>.
\<close>

record 'ts extern =
  str_lower :: "ustr \<Rightarrow> ustr"
  int_of_str :: "ustr \<Rightarrow> int option"
  fromisoformat :: "ustr \<Rightarrow> 'ts option"
  isoformat :: "'ts \<Rightarrow> ustr"
  distance_op :: "real list \<Rightarrow> real list \<Rightarrow> real option"

text \<open>
  The table \<^verbatim>\<open>articles\<close> of \<^verbatim>\<open>alembic/versions/0001_init.py\<close>. The columns
  \<^verbatim>\<open>created_at\<close> and \<^verbatim>\<open>updated_at\<close> are filled by the server and read by no
  code under verification; they are left out.
\<close>

record 'ts article_row =
  row_id :: int
  row_title :: ustr
  row_content :: ustr
  row_author :: "ustr option"
  row_category :: "ustr option"
  row_published_at :: "'ts option"
  row_embedding :: "real list option"

text \<open>
  The state of the store as one connection sees it: the committed rows, the rows
  written by the open transaction, and the statements that changed or committed
  something, in the order they were executed.
\<close>

datatype 'ts db_op = ExecuteMany "'ts article_row list" | Commit | Rollback | Analyze

record 'ts db =
  committed :: "'ts article_row list"
  pending :: "'ts article_row list"
  oplog :: "'ts db_op list"

definition VECTOR_DIM :: nat where
  "VECTOR_DIM = 384"

text \<open>
  What the schema demands of inserted rows: \<^verbatim>\<open>id BIGINT PRIMARY KEY\<close> and
  \<^verbatim>\<open>embedding vector(384)\<close>. (\<^verbatim>\<open>title\<close> and \<^verbatim>\<open>content\<close> are
  \<^verbatim>\<open>NOT NULL\<close>, which the row type already says.) Other checks of the server
  are not modelled.
\<close>

definition row_ok :: "'ts article_row \<Rightarrow> bool" where
  "row_ok r \<longleftrightarrow>
     - (2 ^ 63) \<le> row_id r \<and> row_id r < 2 ^ 63 \<and>
     (case row_embedding r of None \<Rightarrow> True | Some e \<Rightarrow> length e = VECTOR_DIM)"

definition insert_ok :: "'ts article_row list \<Rightarrow> 'ts article_row list \<Rightarrow> bool" where
  "insert_ok existing batch \<longleftrightarrow>
     list_all row_ok batch \<and> distinct (map row_id (existing @ batch))"

text \<open>
  \<^verbatim>\<open>cur.executemany("INSERT INTO articles ...", batch)\<close>: all rows are written in the
  open transaction, or the statement raises and writes nothing.
\<close>

definition executemany :: "'ts db \<Rightarrow> 'ts article_row list \<Rightarrow> py_error + 'ts db" where
  "executemany db batch =
     (if insert_ok (committed db @ pending db) batch
      then Inr (db\<lparr>pending := pending db @ batch, oplog := oplog db @ [ExecuteMany batch]\<rparr>)
      else Inl DatabaseError)"

definition commit :: "'ts db \<Rightarrow> 'ts db" where
  "commit db =
     db\<lparr>committed := committed db @ pending db, pending := [], oplog := oplog db @ [Commit]\<rparr>"

definition rollback :: "'ts db \<Rightarrow> 'ts db" where
  "rollback db = db\<lparr>pending := [], oplog := oplog db @ [Rollback]\<rparr>"

definition analyze :: "'ts db \<Rightarrow> 'ts db" where
  "analyze db = db\<lparr>oplog := oplog db @ [Analyze]\<rparr>"

text \<open>
  \<^verbatim>\<open>with psycopg.connect(db_url) as conn\<close>: a new connection has no open
  transaction; leaving the block commits, leaving it by an exception rolls back.
\<close>

definition connect :: "'ts db \<Rightarrow> 'ts db" where
  "connect db = db\<lparr>pending := []\<rparr>"

section \<open>Bulk ingestion\<close>

text \<open>
  A row of \<^verbatim>\<open>csv.DictReader\<close>: a dictionary from the column names of the header to
  the fields, where a field that the line does not have is \<^verbatim>\<open>None\<close>.
\<close>

type_synonym csv_row = "string \<rightharpoonup> ustr option"

text \<open>\<^verbatim>\<open>s.replace("Z", "+00:00")\<close>\<close>

definition replace_Z :: "ustr \<Rightarrow> ustr" where
  "replace_Z s = concat (map (\<lambda>c. if c = 90 then ustr ''+00:00'' else [c]) s)"

text \<open>
  \<^verbatim>\<open>_parse_ts\<close> of \<^verbatim>\<open>scripts/import_articles.py\<close>, lines 24 to 30
  (\<^verbatim>\<open>parse_ts\<close> of \<^verbatim>\<open>main.py\<close> has the same body): \<^verbatim>\<open>None\<close> and the
  empty string give \<^verbatim>\<open>None\<close>, and so does every exception of the parser.
\<close>

definition parse_ts :: "'ts extern \<Rightarrow> ustr option \<Rightarrow> 'ts option" where
  "parse_ts X s =
     (case s of
        None \<Rightarrow> None
      | Some v \<Rightarrow> if v = [] then None else fromisoformat X (replace_Z v))"

text \<open>\<^verbatim>\<open>row.get(key, default)\<close> and \<^verbatim>\<open>row.get(key, "") or ""\<close>.\<close>

definition dict_get :: "csv_row \<Rightarrow> string \<Rightarrow> ustr option \<Rightarrow> ustr option" where
  "dict_get row key dflt = (case row key of None \<Rightarrow> dflt | Some v \<Rightarrow> v)"

definition or_empty :: "ustr option \<Rightarrow> ustr" where
  "or_empty v = (case v of None \<Rightarrow> [] | Some s \<Rightarrow> s)"

text \<open>
  The body of the loop up to \<^verbatim>\<open>batch.append\<close>, lines 70 to 80.
  \<^verbatim>\<open>row["id"]\<close> raises \<^verbatim>\<open>KeyError\<close> when the header has no such column;
  \<^verbatim>\<open>int(None)\<close> raises \<^verbatim>\<open>TypeError\<close>, \<^verbatim>\<open>int(s)\<close> raises
  \<^verbatim>\<open>ValueError\<close> when \<open>s\<close> is not a number. \<open>dimen\<close> is \<^verbatim>\<open>EMBEDDING_DIM\<close>.
\<close>

definition import_row :: "'ts extern \<Rightarrow> int \<Rightarrow> csv_row \<Rightarrow> py_error + 'ts article_row" where
  "import_row X dimen row =
     (case row ''id'' of
        None \<Rightarrow> Inl KeyError
      | Some None \<Rightarrow> Inl TypeError
      | Some (Some s) \<Rightarrow>
          (case int_of_str X s of
             None \<Rightarrow> Inl ValueError
           | Some article_id \<Rightarrow>
               (let title = or_empty (dict_get row ''title'' (Some []));
                    content = or_empty (dict_get row ''content'' (Some []));
                    author = dict_get row ''author'' None;
                    category = dict_get row ''category'' None;
                    published_at = parse_ts X (dict_get row ''published_at'' (Some []));
                    text = title @ [10] @ content
                in case import_embed_text (str_lower X) (Some text) dimen of
                     Inl e \<Rightarrow> Inl e
                   | Inr emb \<Rightarrow>
                       Inr \<lparr>row_id = article_id, row_title = title, row_content = content,
                            row_author = author, row_category = category,
                            row_published_at = published_at, row_embedding = Some emb\<rparr>)))"

text \<open>
  The flush of lines 83 to 92 and 95 to 103: one \<^verbatim>\<open>executemany\<close> and one
  \<^verbatim>\<open>conn.commit()\<close>.
\<close>

definition flush :: "'ts db \<Rightarrow> 'ts article_row list \<Rightarrow> py_error + 'ts db" where
  "flush db batch =
     (case executemany db batch of Inl e \<Rightarrow> Inl e | Inr db' \<Rightarrow> Inr (commit db'))"

text \<open>
  The loop \<^verbatim>\<open>for row in reader\<close>, lines 69 to 92, with the batch and the store as
  state. An exception leaves the loop with the store as it is at that moment; the
  result of a complete pass is the batch that is left.
\<close>

fun import_rows ::
  "'ts extern \<Rightarrow> int \<Rightarrow> nat \<Rightarrow> csv_row list \<Rightarrow> 'ts article_row list \<Rightarrow> 'ts db
     \<Rightarrow> (py_error + 'ts article_row list) \<times> 'ts db" where
  "import_rows X dimen batch_size [] batch db = (Inr batch, db)"
| "import_rows X dimen batch_size (row # rows) batch db =
     (case import_row X dimen row of
        Inl e \<Rightarrow> (Inl e, db)
      | Inr tuple \<Rightarrow>
          (let batch' = batch @ [tuple]
           in if length batch' \<ge> batch_size then
                (case flush db batch' of
                   Inl e \<Rightarrow> (Inl e, db)
                 | Inr db' \<Rightarrow> import_rows X dimen batch_size rows [] db')
              else import_rows X dimen batch_size rows batch' db))"

datatype seed_result = SeedDisabled | CsvNotFound | AlreadySeeded nat | SeedDone

text \<open>
  \<^verbatim>\<open>main\<close> of \<^verbatim>\<open>scripts/import_articles.py\<close> with the batch size as a parameter.
  \<open>run_seed\<close> is \<^verbatim>\<open>RUN_SEED\<close>, \<open>csv\<close> the rows of the file at \<^verbatim>\<open>CSV_PATH\<close>
  (\<open>None\<close> when there is no such file), \<open>dimen\<close> is \<^verbatim>\<open>EMBEDDING_DIM\<close>.
  \<^verbatim>\<open>SELECT COUNT(*) FROM articles\<close> counts the committed rows.
\<close>

definition ingest ::
  "'ts extern \<Rightarrow> nat \<Rightarrow> bool \<Rightarrow> csv_row list option \<Rightarrow> int \<Rightarrow> 'ts db
     \<Rightarrow> (py_error + seed_result) \<times> 'ts db" where
  "ingest X batch_size run_seed csv dimen db0 =
     (if \<not> run_seed then (Inr SeedDisabled, db0)
      else case csv of
        None \<Rightarrow> (Inr CsvNotFound, db0)
      | Some rows \<Rightarrow>
          (let db = connect db0;
               count = length (committed db)
           in if count > 0 then (Inr (AlreadySeeded count), commit db)
              else case import_rows X dimen batch_size rows [] db of
                (Inl e, db1) \<Rightarrow> (Inl e, rollback db1)
              | (Inr batch, db1) \<Rightarrow>
                  (case (if batch \<noteq> [] then flush db1 batch else Inr db1) of
                     Inl e \<Rightarrow> (Inl e, rollback db1)
                   | Inr db2 \<Rightarrow> (Inr SeedDone, commit (commit (analyze db2))))))"

definition BATCH_SIZE :: nat where
  "BATCH_SIZE = 500"

definition main ::
  "'ts extern \<Rightarrow> bool \<Rightarrow> csv_row list option \<Rightarrow> int \<Rightarrow> 'ts db
     \<Rightarrow> (py_error + seed_result) \<times> 'ts db" where
  "main X run_seed csv dimen db0 = ingest X BATCH_SIZE run_seed csv dimen db0"

section \<open>Similarity search\<close>

text \<open>The response models \<^verbatim>\<open>ArticleOut\<close> and \<^verbatim>\<open>SearchHit\<close> of \<^verbatim>\<open>main.py\<close>.\<close>

record article_out =
  out_id :: int
  out_title :: ustr
  out_content :: ustr
  out_author :: "ustr option"
  out_category :: "ustr option"
  out_published_at :: "ustr option"

record search_hit =
  hit_score :: real
  hit_distance :: real
  hit_article :: article_out

text \<open>
  The distance column of the query, \<^verbatim>\<open>embedding <=> (%s)::vector\<close>: the operator
  raises when the two vectors differ in dimension.
\<close>

definition vector_distance :: "'ts extern \<Rightarrow> real list \<Rightarrow> real list \<Rightarrow> py_error + real option" where
  "vector_distance X e q =
     (if length e \<noteq> length q then Inl DatabaseError else Inr (distance_op X e q))"

text \<open>
  The rows with \<^verbatim>\<open>embedding IS NOT NULL\<close>, each with its distance to the query
  vector.
\<close>

fun with_distance ::
  "'ts extern \<Rightarrow> real list \<Rightarrow> 'ts article_row list
     \<Rightarrow> py_error + ('ts article_row \<times> real option) list" where
  "with_distance X q [] = Inr []"
| "with_distance X q (r # rs) =
     (case row_embedding r of
        None \<Rightarrow> with_distance X q rs
      | Some e \<Rightarrow>
          (case vector_distance X e q of
             Inl err \<Rightarrow> Inl err
           | Inr d \<Rightarrow>
               (case with_distance X q rs of
                  Inl err \<Rightarrow> Inl err
                | Inr rest \<Rightarrow> Inr ((r, d) # rest))))"

text \<open>
  \<^verbatim>\<open>distance <= max_distance\<close> in the server's order of floating-point numbers,
  where \<^verbatim>\<open>NaN\<close> is above every number: a \<^verbatim>\<open>NaN\<close> distance never passes.
\<close>

fun within_distance :: "real \<Rightarrow> ('ts article_row \<times> real option) list \<Rightarrow> ('ts article_row \<times> real) list" where
  "within_distance max_distance [] = []"
| "within_distance max_distance ((r, None) # rs) = within_distance max_distance rs"
| "within_distance max_distance ((r, Some d) # rs) =
     (if d \<le> max_distance then (r, d) # within_distance max_distance rs else within_distance max_distance rs)"

text \<open>
  The query of \<^verbatim>\<open>semantic_search\<close>, lines 145 to 158: filter, \<^verbatim>\<open>ORDER BY distance\<close>,
  \<^verbatim>\<open>LIMIT\<close>. SQL leaves the order of rows with equal distance open; the model
  keeps them in table order.
\<close>

definition search_query ::
  "'ts extern \<Rightarrow> 'ts db \<Rightarrow> real list \<Rightarrow> real \<Rightarrow> nat
     \<Rightarrow> py_error + ('ts article_row \<times> real) list" where
  "search_query X db qvec max_distance limit =
     (case with_distance X qvec (committed db) of
        Inl e \<Rightarrow> Inl e
      | Inr rows \<Rightarrow> Inr (take limit (sort_key snd (within_distance max_distance rows))))"

text \<open>Line 163: \<^verbatim>\<open>score = 1.0 / (1.0 + distance)\<close>.\<close>

definition make_hit :: "'ts extern \<Rightarrow> 'ts article_row \<times> real \<Rightarrow> search_hit" where
  "make_hit X rd =
     (let r = fst rd; distance = snd rd; score = 1 / (1 + distance)
      in \<lparr>hit_score = score, hit_distance = distance,
          hit_article =
            \<lparr>out_id = row_id r, out_title = row_title r, out_content = row_content r,
             out_author = row_author r, out_category = row_category r,
             out_published_at = map_option (isoformat X) (row_published_at r)\<rparr>\<rparr>)"

text \<open>
  \<^verbatim>\<open>semantic_search\<close> of \<^verbatim>\<open>main.py\<close>, lines 133 to 180. The constraints of the
  \<^verbatim>\<open>Query\<close> declarations are checked before the body runs: \<^verbatim>\<open>q\<close> has at
  least one character, \<open>1 \<le> limit \<le> 50\<close> and \<open>0 \<le> max_distance \<le> 2\<close>.
\<close>

definition semantic_search ::
  "'ts extern \<Rightarrow> int \<Rightarrow> 'ts db \<Rightarrow> ustr \<Rightarrow> int \<Rightarrow> real \<Rightarrow> py_error + search_hit list" where
  "semantic_search X dimen db q limit max_distance =
     (if length q < 1 \<or> limit < 1 \<or> 50 < limit \<or> max_distance < 0 \<or> 2 < max_distance
      then Inl RequestValidationError
      else case embed_text (str_lower X) (Some q) dimen of
        Inl e \<Rightarrow> Inl e
      | Inr qvec \<Rightarrow>
          (case search_query X (connect db) qvec max_distance (nat limit) of
             Inl e \<Rightarrow> Inl e
           | Inr rows \<Rightarrow> Inr (map (make_hit X) rows)))"

text \<open>
  The embedding that \<^verbatim>\<open>create_article\<close> and \<^verbatim>\<open>update_article\<close> of
  \<^verbatim>\<open>main.py\<close> store (lines 216 and 283): that of the title, a newline and the
  content.
\<close>

definition article_embedding :: "'ts extern \<Rightarrow> int \<Rightarrow> ustr \<Rightarrow> ustr \<Rightarrow> py_error + real list" where
  "article_embedding X dimen title content =
     embed_text (str_lower X) (Some (title @ [10] @ content)) dimen"


section \<open>Batches, well-formed input and sample data\<close>

text \<open>
  The batches of a stream of records with batch size \<open>n\<close>, as the specification
  describes them: full batches of \<open>n\<close> records, then the remaining partial batch.
\<close>

function chunks :: "nat \<Rightarrow> 'a list \<Rightarrow> 'a list list" where
  "chunks n xs = (if n = 0 \<or> xs = [] then [] else take n xs # chunks n (drop n xs))"
  by pat_completeness auto
termination
  by (relation "measure (\<lambda>(n, xs). length xs)") auto

declare chunks.simps [simp del]

text \<open>
  The id that the loop reads from a row, and well-formed input: every row has an id
  that \<^verbatim>\<open>int\<close> parses and that fits the column type, and no two rows have the same
  id (the column is the primary key).
\<close>

definition csv_id :: "'ts extern \<Rightarrow> csv_row \<Rightarrow> int option" where
  "csv_id X row =
     (case row ''id'' of
        None \<Rightarrow> None
      | Some None \<Rightarrow> None
      | Some (Some s) \<Rightarrow> int_of_str X s)"

definition well_formed :: "'ts extern \<Rightarrow> csv_row list \<Rightarrow> bool" where
  "well_formed X rows \<longleftrightarrow>
     list_all (\<lambda>r. case csv_id X r of
                      None \<Rightarrow> False
                    | Some i \<Rightarrow> - (2 ^ 63) \<le> i \<and> i < 2 ^ 63) rows
     \<and> distinct (map (csv_id X) rows)"

definition is_insert :: "'ts db_op \<Rightarrow> bool" where
  "is_insert op = (case op of ExecuteMany b \<Rightarrow> True | _ \<Rightarrow> False)"

text \<open>
  Sample instances of the library functions for the closed examples below. On the
  inputs used there they agree with Python: \<open>ascii_lower\<close> with \<^verbatim>\<open>str.lower\<close> on
  ASCII text, \<open>decimal_int\<close> with \<^verbatim>\<open>int\<close> on strings of ASCII digits with an
  optional minus sign, \<open>iso_date\<close> with \<^verbatim>\<open>datetime.fromisoformat\<close> on
  \<^verbatim>\<open>YYYY-MM-DD\<close> (as a triple of year, month and day) and on text without
  digits; \<open>cosine_distance\<close> is the cosine distance in exact arithmetic.
\<close>

definition ascii_lower :: "ustr \<Rightarrow> ustr" where
  "ascii_lower s = map (\<lambda>c. if 65 \<le> c \<and> c \<le> 90 then c + 32 else c) s"

definition is_digit :: "nat \<Rightarrow> bool" where
  "is_digit c \<longleftrightarrow> 48 \<le> c \<and> c \<le> 57"

definition digits_value :: "ustr \<Rightarrow> nat" where
  "digits_value s = foldl (\<lambda>n c. 10 * n + (c - 48)) 0 s"

definition decimal_int :: "ustr \<Rightarrow> int option" where
  "decimal_int s =
     (case s of
        [] \<Rightarrow> None
      | c # cs \<Rightarrow>
          if c = 45 then
            (if cs \<noteq> [] \<and> list_all is_digit cs then Some (- int (digits_value cs)) else None)
          else if list_all is_digit s then Some (int (digits_value s)) else None)"

definition iso_date :: "ustr \<Rightarrow> (nat \<times> nat \<times> nat) option" where
  "iso_date s =
     (if length s = 10 \<and> list_all is_digit (take 4 s) \<and> s ! 4 = 45
         \<and> list_all is_digit (take 2 (drop 5 s)) \<and> s ! 7 = 45
         \<and> list_all is_digit (drop 8 s)
      then
        (let y = digits_value (take 4 s); m = digits_value (take 2 (drop 5 s));
             d = digits_value (drop 8 s)
         in if 1 \<le> y \<and> 1 \<le> m \<and> m \<le> 12 \<and> 1 \<le> d \<and> d \<le> 28 then Some (y, m, d) else None)
      else None)"

definition two_digits :: "nat \<Rightarrow> ustr" where
  "two_digits n = [48 + n div 10 mod 10, 48 + n mod 10]"

definition iso_date_format :: "nat \<times> nat \<times> nat \<Rightarrow> ustr" where
  "iso_date_format t =
     (case t of (y, m, d) \<Rightarrow>
        two_digits (y div 100) @ two_digits y @ [45] @ two_digits m @ [45] @ two_digits d
          @ ustr ''T00:00:00'')"

definition dot :: "real list \<Rightarrow> real list \<Rightarrow> real" where
  "dot a b = (\<Sum>(x, y)\<leftarrow>zip a b. x * y)"

definition cosine_distance :: "real list \<Rightarrow> real list \<Rightarrow> real option" where
  "cosine_distance a b =
     (if dot a a = 0 \<or> dot b b = 0 then None
      else Some (1 - dot a b / sqrt (dot a a * dot b b)))"

definition sample_extern :: "(nat \<times> nat \<times> nat) extern" where
  "sample_extern =
     \<lparr>str_lower = ascii_lower, int_of_str = decimal_int, fromisoformat = iso_date,
      isoformat = iso_date_format, distance_op = cosine_distance\<rparr>"


section \<open>Properties of the tokenizer and the hash\<close>

lemma findall_tokens:
  "t \<in> set (TOKEN_RE_findall s) \<Longrightarrow>
     t \<noteq> [] \<and> ((\<forall>c\<in>set t. is_word_char c) \<or> (\<forall>c\<in>set t. is_cjk_char c))"
proof (induction s rule: TOKEN_RE_findall.induct)
  case 1
  then show ?case by simp
next
  case (2 c cs)
  then show ?case
    by (auto split: if_splits dest: set_takeWhileD)
qed

lemma tokenize_example:
  "tokenize ascii_lower (Some (ustr ''Rust systems, programming!'')) =
     [ustr ''rust'', ustr ''systems'', ustr ''programming'']"
  by (simp add: tokenize_def ascii_lower_def ustr_def is_word_char_def is_cjk_char_def)

lemma utf8_char_word: "is_word_char c \<Longrightarrow> utf8_char c = Inr [of_nat c]"
  by (auto simp: is_word_char_def utf8_char_def)

lemma utf8_char_cjk:
  "is_cjk_char c \<Longrightarrow>
     utf8_char c = Inr [of_nat (0xE0 + c div 4096), of_nat (0x80 + c div 64 mod 64),
                        of_nat (0x80 + c mod 64)]"
  by (auto simp: is_cjk_char_def utf8_char_def)

lemma utf8_encode_total:
  "\<forall>c\<in>set t. is_word_char c \<or> is_cjk_char c \<Longrightarrow> \<exists>bs. utf8_encode t = Inr bs"
  by (induction t) (auto simp: utf8_char_word utf8_char_cjk)

lemma length_bytes_of_word_le: "length (bytes_of_word_le n w) = n"
  by (induction n arbitrary: w) auto

lemma length_blake2b_F: "length (blake2b_F h blk t final) = 8"
  by (simp add: blake2b_F_def Let_def)

lemma length_blake2b_blocks: "length (blake2b_blocks h t d) = 8"
  by (induction h t d rule: blake2b_blocks.induct)
     (subst blake2b_blocks.simps, simp add: length_blake2b_F)

lemma length_concat_bytes: "length (concat (map (bytes_of_word_le 8) hs)) = 8 * length hs"
  by (induction hs) (auto simp: length_bytes_of_word_le)

lemma length_blake2b: "n \<le> 64 \<Longrightarrow> length (blake2b n d) = n"
  by (simp add: blake2b_def Let_def length_concat_bytes length_blake2b_blocks)

lemma from_bytes_little_bounds:
  "0 \<le> from_bytes_little bs \<and> from_bytes_little bs < 256 ^ length bs"
proof (induction bs)
  case Nil
  then show ?case by simp
next
  case (Cons b bs)
  have "uint b < 256" using uint_bounded [of b] by simp
  moreover have "0 \<le> uint b" by simp
  ultimately show ?case using Cons by simp
qed

lemma token_index_total:
  assumes "0 < dimen" and "\<forall>c\<in>set t. is_word_char c \<or> is_cjk_char c"
  shows "\<exists>bs. utf8_encode t = Inr bs \<and> length (blake2b 8 bs) = 8
           \<and> 0 \<le> from_bytes_little (blake2b 8 bs)
           \<and> from_bytes_little (blake2b 8 bs) < 2 ^ 64
           \<and> token_index dimen t = Inr (nat (from_bytes_little (blake2b 8 bs) mod dimen))
           \<and> nat (from_bytes_little (blake2b 8 bs) mod dimen) < nat dimen"
proof -
  from assms(2) obtain bs where bs: "utf8_encode t = Inr bs"
    using utf8_encode_total by blast
  have len: "length (blake2b 8 bs) = 8" by (simp add: length_blake2b)
  have nonneg: "0 \<le> from_bytes_little (blake2b 8 bs)"
    using from_bytes_little_bounds by blast
  have "from_bytes_little (blake2b 8 bs) < 256 ^ length (blake2b 8 bs)"
    using from_bytes_little_bounds by blast
  then have bound: "from_bytes_little (blake2b 8 bs) < 2 ^ 64" by (simp add: len)
  have idx: "token_index dimen t = Inr (nat (from_bytes_little (blake2b 8 bs) mod dimen))"
    using assms(1) by (simp add: token_index_def bs Let_def)
  have "nat (from_bytes_little (blake2b 8 bs) mod dimen) < nat dimen"
    using assms(1) by (simp add: nat_less_iff)
  with bs len nonneg bound idx show ?thesis by blast
qed

lemma token_index_findall:
  assumes "0 < dimen" and "t \<in> set (TOKEN_RE_findall s)"
  shows "\<exists>bs. utf8_encode t = Inr bs \<and> length (blake2b 8 bs) = 8
           \<and> 0 \<le> from_bytes_little (blake2b 8 bs)
           \<and> from_bytes_little (blake2b 8 bs) < 2 ^ 64
           \<and> token_index dimen t = Inr (nat (from_bytes_little (blake2b 8 bs) mod dimen))
           \<and> nat (from_bytes_little (blake2b 8 bs) mod dimen) < nat dimen"
proof -
  have "\<forall>c\<in>set t. is_word_char c \<or> is_cjk_char c"
    using findall_tokens [OF assms(2)] by blast
  with assms(1) show ?thesis by (rule token_index_total)
qed

section \<open>Properties of the accumulation and the normalisation\<close>

lemma hash_features_append:
  "hash_features dimen (ts @ us) vec =
     (case hash_features dimen ts vec of Inl e \<Rightarrow> Inl e | Inr v \<Rightarrow> hash_features dimen us v)"
  by (induction ts arbitrary: vec) (auto split: sum.splits)

lemma hash_features_counts:
  assumes "\<forall>t\<in>set ts. \<exists>i. token_index dimen t = Inr i \<and> i < length vec"
  shows "\<exists>vec'. hash_features dimen ts vec = Inr vec' \<and> length vec' = length vec
           \<and> (\<forall>i<length vec. vec' ! i =
                  vec ! i + real (length (filter (\<lambda>t. token_index dimen t = Inr i) ts)))"
  using assms
proof (induction ts arbitrary: vec)
  case Nil
  then show ?case by simp
next
  case (Cons t ts)
  from Cons.prems obtain k where k: "token_index dimen t = Inr k" "k < length vec"
    by auto
  let ?v = "vec[k := vec ! k + 1]"
  have "\<forall>t\<in>set ts. \<exists>i. token_index dimen t = Inr i \<and> i < length ?v"
    using Cons.prems by simp
  from Cons.IH [OF this] obtain vec' where v:
    "hash_features dimen ts ?v = Inr vec'" "length vec' = length vec"
    "\<forall>i<length vec. vec' ! i =
        ?v ! i + real (length (filter (\<lambda>t. token_index dimen t = Inr i) ts))"
    by auto
  have "\<forall>i<length vec. vec' ! i =
          vec ! i + real (length (filter (\<lambda>t. token_index dimen t = Inr i) (t # ts)))"
    using v(3) k by (auto simp: nth_list_update)
  with v(1,2) k(1) show ?case by simp
qed

lemma hash_features_findall:
  assumes "0 < dimen"
  shows "\<exists>vec. hash_features dimen (TOKEN_RE_findall s) (replicate (nat dimen) 0) = Inr vec
           \<and> length vec = nat dimen
           \<and> (\<forall>i<nat dimen. vec ! i =
                 real (length (filter (\<lambda>t. token_index dimen t = Inr i) (TOKEN_RE_findall s))))"
proof -
  have "\<forall>t\<in>set (TOKEN_RE_findall s).
          \<exists>i. token_index dimen t = Inr i \<and> i < length (replicate (nat dimen) (0::real))"
    using token_index_findall [OF assms] by fastforce
  from hash_features_counts [OF this] show ?thesis by auto
qed

lemma hash_features_nonzero:
  assumes "0 < dimen" and "TOKEN_RE_findall s \<noteq> []"
    and "hash_features dimen (TOKEN_RE_findall s) (replicate (nat dimen) 0) = Inr vec"
  shows "\<exists>k<length vec. vec ! k \<noteq> 0"
proof -
  from assms(2) obtain t where t: "t \<in> set (TOKEN_RE_findall s)"
    by (cases "TOKEN_RE_findall s") auto
  from token_index_findall [OF assms(1) t] obtain k where
    k: "token_index dimen t = Inr k" "k < nat dimen" by blast
  from hash_features_findall [OF assms(1), of s] assms(3) have
    len: "length vec = nat dimen" and
    cnt: "\<forall>i<nat dimen. vec ! i =
            real (length (filter (\<lambda>t. token_index dimen t = Inr i) (TOKEN_RE_findall s)))"
    by auto
  have "t \<in> set (filter (\<lambda>t. token_index dimen t = Inr k) (TOKEN_RE_findall s))"
    using t k(1) by simp
  then have "filter (\<lambda>t. token_index dimen t = Inr k) (TOKEN_RE_findall s) \<noteq> []"
    by (metis empty_iff list.set(1))
  then have "vec ! k \<noteq> 0" using cnt k(2) by simp
  with k(2) len show ?thesis by auto
qed

lemma sum_squares_nonneg: "0 \<le> (\<Sum>x\<leftarrow>(v::real list). x * x)"
  by (induction v) auto

lemma sum_squares_pos:
  "k < length v \<Longrightarrow> v ! k \<noteq> (0::real) \<Longrightarrow> 0 < (\<Sum>x\<leftarrow>v. x * x)"
proof (induction v arbitrary: k)
  case Nil
  then show ?case by simp
next
  case (Cons a v)
  show ?case
  proof (cases k)
    case 0
    with Cons.prems have "0 < a * a" by (auto simp: zero_less_mult_iff)
    then show ?thesis using sum_squares_nonneg [of v] by simp
  next
    case (Suc j)
    with Cons.prems have "0 < (\<Sum>x\<leftarrow>v. x * x)" by (auto intro: Cons.IH)
    moreover have "0 \<le> a * a" by simp
    ultimately show ?thesis by (simp add: add_nonneg_pos)
  qed
qed

lemma sum_squares_scaled:
  "(\<Sum>x\<leftarrow>map (\<lambda>x. x / n) v. x * x) = (\<Sum>x\<leftarrow>v. x * x) / (n * (n::real))"
  by (induction v) (simp_all add: add_divide_distrib)

lemma linalg_norm_zero: "linalg_norm (replicate n 0) = 0"
  by (induction n) (auto simp: linalg_norm_def)

lemma normalize_zero: "normalize (replicate n 0) = replicate n 0"
  by (simp add: normalize_def linalg_norm_zero)

lemma length_normalize: "length (normalize v) = length v"
  by (simp add: normalize_def Let_def)

lemma linalg_norm_normalize:
  assumes "k < length v" and "v ! k \<noteq> 0"
  shows "linalg_norm (normalize v) = 1"
proof -
  let ?S = "\<Sum>x\<leftarrow>v. x * x"
  have S: "0 < ?S" using assms by (rule sum_squares_pos)
  then have n: "0 < linalg_norm v" by (simp add: linalg_norm_def)
  have "linalg_norm (normalize v) = sqrt (?S / (sqrt ?S * sqrt ?S))"
    using n sum_squares_scaled [of "sqrt ?S" v] by (simp add: normalize_def linalg_norm_def)
  also have "\<dots> = 1" using S by simp
  finally show ?thesis .
qed

lemma embed_text_Some:
  assumes "0 < dimen"
  shows "\<exists>vec. hash_features dimen (tokenize lower text) (replicate (nat dimen) 0) = Inr vec
           \<and> length vec = nat dimen
           \<and> embed_text lower text dimen = Inr (normalize vec)"
proof -
  let ?s = "lower (case text of None \<Rightarrow> [] | Some s \<Rightarrow> s)"
  from hash_features_findall [OF assms, of ?s] obtain vec where
    "hash_features dimen (TOKEN_RE_findall ?s) (replicate (nat dimen) 0) = Inr vec"
    "length vec = nat dimen"
    by blast
  then show ?thesis
    using assms by (simp add: embed_text_def tokenize_def np_zeros_def)
qed

lemma import_embed_text_eq:
  "import_embed_text lower (Some s) dimen = embed_text lower (Some s) dimen"
  by (simp add: import_embed_text_def import_tokenize_def embed_text_def tokenize_def)

lemma embed_text_length:
  assumes "0 < dimen"
  shows "\<exists>v. embed_text lower text dimen = Inr v \<and> length v = nat dimen"
  using embed_text_Some [OF assms, of lower "text"] by (auto simp: length_normalize)

section \<open>The embedding claims\<close>

text \<open>
  C2. For a positive \<open>dim\<close>: when the tokenization of the text is not empty,
  \<^verbatim>\<open>embed_text\<close> returns a vector of Euclidean norm 1 (in exact arithmetic, that
  is, up to the rounding of the floating-point operations); when the tokenization is
  empty it returns the all-zero vector of length \<open>dim\<close>.
\<close>

theorem embed_text_normalized:
  assumes "0 < dimen"
  shows "(tokenize lower text \<noteq> [] \<longrightarrow>
            (\<exists>v. embed_text lower text dimen = Inr v \<and> linalg_norm v = 1))
       \<and> (tokenize lower text = [] \<longrightarrow>
            embed_text lower text dimen = Inr (replicate (nat dimen) 0))"
proof (intro conjI impI)
  assume ne: "tokenize lower text \<noteq> []"
  let ?s = "lower (case text of None \<Rightarrow> [] | Some s \<Rightarrow> s)"
  from hash_features_findall [OF assms, of ?s] obtain vec where
    vec: "hash_features dimen (TOKEN_RE_findall ?s) (replicate (nat dimen) 0) = Inr vec"
    by blast
  from hash_features_nonzero [OF assms _ vec] ne obtain k where
    "k < length vec" "vec ! k \<noteq> 0" by (auto simp: tokenize_def)
  then have "linalg_norm (normalize vec) = 1" by (rule linalg_norm_normalize)
  moreover have "embed_text lower text dimen = Inr (normalize vec)"
    using assms vec by (simp add: embed_text_def tokenize_def np_zeros_def)
  ultimately show "\<exists>v. embed_text lower text dimen = Inr v \<and> linalg_norm v = 1" by blast
next
  assume "tokenize lower text = []"
  then show "embed_text lower text dimen = Inr (replicate (nat dimen) 0)"
    using assms by (simp add: embed_text_def np_zeros_def normalize_zero)
qed

theorem embed_text_normalized_witness:
  "(0::int) < 384 \<and> tokenize ascii_lower (Some (ustr ''Rust systems'')) \<noteq> []
   \<and> (\<exists>v. embed_text ascii_lower (Some (ustr ''Rust systems'')) 384 = Inr v \<and> linalg_norm v = 1)
   \<and> tokenize ascii_lower (Some (ustr ''?! '')) = []
   \<and> embed_text ascii_lower (Some (ustr ''?! '')) 384 = Inr (replicate 384 0)"
proof -
  have a: "tokenize ascii_lower (Some (ustr ''Rust systems'')) \<noteq> []"
    by (simp add: tokenize_def ascii_lower_def ustr_def is_word_char_def is_cjk_char_def)
  have b: "tokenize ascii_lower (Some (ustr ''?! '')) = []"
    by (simp add: tokenize_def ascii_lower_def ustr_def is_word_char_def is_cjk_char_def)
  show ?thesis
    using a b embed_text_normalized [of 384 ascii_lower "Some (ustr ''Rust systems'')"]
      embed_text_normalized [of 384 ascii_lower "Some (ustr ''?! '')"]
    by simp
qed

text \<open>
  C3. For a positive \<open>dim\<close> and every token of a text: the token has a UTF-8
  encoding, its digest has 8 bytes (64 bits), the digest read as a little-endian
  unsigned integer is below \<open>2 ^ 64\<close>, and the slot of the token is that integer
  modulo \<open>dim\<close>. Processing one more token adds exactly 1 to its slot and changes no
  other slot. At the end every slot holds the number of tokens that hash to it, so
  tokens that share a slot accumulate and no collision is an error.
\<close>

theorem hash_features_slots:
  assumes "0 < dimen"
  shows "(\<forall>t\<in>set (TOKEN_RE_findall s).
            \<exists>bs. utf8_encode t = Inr bs \<and> length (blake2b 8 bs) = 8
              \<and> 0 \<le> from_bytes_little (blake2b 8 bs)
              \<and> from_bytes_little (blake2b 8 bs) < 2 ^ 64
              \<and> token_index dimen t = Inr (nat (from_bytes_little (blake2b 8 bs) mod dimen))
              \<and> nat (from_bytes_little (blake2b 8 bs) mod dimen) < nat dimen)
       \<and> (\<forall>ts t vec v k.
            hash_features dimen ts vec = Inr v \<and> token_index dimen t = Inr k \<longrightarrow>
            hash_features dimen (ts @ [t]) vec = Inr (v[k := v ! k + 1]))
       \<and> (\<exists>vec. hash_features dimen (TOKEN_RE_findall s) (replicate (nat dimen) 0) = Inr vec
              \<and> length vec = nat dimen
              \<and> (\<forall>i<nat dimen. vec ! i =
                    real (length (filter (\<lambda>t. token_index dimen t = Inr i)
                                         (TOKEN_RE_findall s)))))"
proof (intro conjI)
  show "\<forall>t\<in>set (TOKEN_RE_findall s).
          \<exists>bs. utf8_encode t = Inr bs \<and> length (blake2b 8 bs) = 8
            \<and> 0 \<le> from_bytes_little (blake2b 8 bs)
            \<and> from_bytes_little (blake2b 8 bs) < 2 ^ 64
            \<and> token_index dimen t = Inr (nat (from_bytes_little (blake2b 8 bs) mod dimen))
            \<and> nat (from_bytes_little (blake2b 8 bs) mod dimen) < nat dimen"
    using token_index_findall [OF assms] by blast
next
  show "\<forall>ts t vec v k.
          hash_features dimen ts vec = Inr v \<and> token_index dimen t = Inr k \<longrightarrow>
          hash_features dimen (ts @ [t]) vec = Inr (v[k := v ! k + 1])"
    by (simp add: hash_features_append)
next
  show "\<exists>vec. hash_features dimen (TOKEN_RE_findall s) (replicate (nat dimen) 0) = Inr vec
          \<and> length vec = nat dimen
          \<and> (\<forall>i<nat dimen. vec ! i =
                real (length (filter (\<lambda>t. token_index dimen t = Inr i) (TOKEN_RE_findall s))))"
    using assms by (rule hash_features_findall)
qed

theorem hash_features_slots_witness:
  "(0::int) < 384
   \<and> TOKEN_RE_findall (ustr ''go go rust'') = [ustr ''go'', ustr ''go'', ustr ''rust'']
   \<and> ((\<forall>t\<in>set (TOKEN_RE_findall (ustr ''go go rust'')).
            \<exists>bs. utf8_encode t = Inr bs \<and> length (blake2b 8 bs) = 8
              \<and> 0 \<le> from_bytes_little (blake2b 8 bs)
              \<and> from_bytes_little (blake2b 8 bs) < 2 ^ 64
              \<and> token_index 384 t = Inr (nat (from_bytes_little (blake2b 8 bs) mod 384))
              \<and> nat (from_bytes_little (blake2b 8 bs) mod 384) < nat 384)
       \<and> (\<forall>ts t vec v k.
            hash_features 384 ts vec = Inr v \<and> token_index 384 t = Inr k \<longrightarrow>
            hash_features 384 (ts @ [t]) vec = Inr (v[k := v ! k + 1]))
       \<and> (\<exists>vec. hash_features 384 (TOKEN_RE_findall (ustr ''go go rust'')) (replicate (nat 384) 0)
                   = Inr vec
              \<and> length vec = nat 384
              \<and> (\<forall>i<nat 384. vec ! i =
                    real (length (filter (\<lambda>t. token_index 384 t = Inr i)
                                         (TOKEN_RE_findall (ustr ''go go rust'')))))))"
proof -
  have p: "(0::int) < 384" by simp
  have tok: "TOKEN_RE_findall (ustr ''go go rust'') = [ustr ''go'', ustr ''go'', ustr ''rust'']"
    by (simp add: ustr_def is_word_char_def is_cjk_char_def)
  show ?thesis
    by (rule conjI [OF p conjI [OF tok hash_features_slots [OF p]]])
qed

text \<open>
  C7, as stated, fails for the copy of \<^verbatim>\<open>embed_text\<close> in the ingestion script:
  on \<^verbatim>\<open>None\<close> its tokenization raises \<^verbatim>\<open>AttributeError\<close>, and so does the
  embedding.
\<close>

theorem import_embed_text_null_raises:
  "import_tokenize ascii_lower None = Inl AttributeError
   \<and> import_embed_text ascii_lower None 384 = Inl AttributeError"
  by (simp add: import_embed_text_def import_tokenize_def)

text \<open>
  C7, amended. For a positive \<open>dim\<close>, \<^verbatim>\<open>embed_text\<close> of the HTTP layer returns a
  vector of length \<open>dim\<close> for every text, \<^verbatim>\<open>None\<close> included, and the copy of the
  ingestion script does so for every string; no exception is raised. The empty string
  (and \<^verbatim>\<open>None\<close> in the HTTP layer) tokenizes to the empty sequence and embeds to
  the zero vector (\<^verbatim>\<open>str.lower\<close> maps the empty string to itself).
\<close>

theorem embedding_total:
  assumes "0 < dimen"
  shows "(\<exists>v. embed_text lower text dimen = Inr v \<and> length v = nat dimen)
       \<and> (\<exists>v. import_tokenize lower (Some s) = Inr (TOKEN_RE_findall (lower s))
              \<and> import_embed_text lower (Some s) dimen = Inr v \<and> length v = nat dimen)
       \<and> (lower [] = [] \<longrightarrow>
             tokenize lower None = [] \<and> tokenize lower (Some []) = []
           \<and> import_tokenize lower (Some []) = Inr []
           \<and> embed_text lower None dimen = Inr (replicate (nat dimen) 0)
           \<and> embed_text lower (Some []) dimen = Inr (replicate (nat dimen) 0)
           \<and> import_embed_text lower (Some []) dimen = Inr (replicate (nat dimen) 0))"
proof (intro conjI impI)
  show "\<exists>v. embed_text lower text dimen = Inr v \<and> length v = nat dimen"
    using assms by (rule embed_text_length)
next
  from embed_text_length [OF assms, of lower "Some s"]
  show "\<exists>v. import_tokenize lower (Some s) = Inr (TOKEN_RE_findall (lower s))
          \<and> import_embed_text lower (Some s) dimen = Inr v \<and> length v = nat dimen"
    by (simp add: import_embed_text_eq import_tokenize_def)
next
  assume e: "lower [] = []"
  show "tokenize lower None = []" using e by (simp add: tokenize_def)
  show "tokenize lower (Some []) = []" using e by (simp add: tokenize_def)
  show "import_tokenize lower (Some []) = Inr []" using e by (simp add: import_tokenize_def)
  show "embed_text lower None dimen = Inr (replicate (nat dimen) 0)"
    using e assms by (simp add: embed_text_def tokenize_def np_zeros_def normalize_zero)
  show z: "embed_text lower (Some []) dimen = Inr (replicate (nat dimen) 0)"
    using e assms by (simp add: embed_text_def tokenize_def np_zeros_def normalize_zero)
  show "import_embed_text lower (Some []) dimen = Inr (replicate (nat dimen) 0)"
    using z by (simp add: import_embed_text_eq)
qed

theorem embedding_total_witness:
  "(0::int) < 384 \<and> ascii_lower [] = []
   \<and> (\<exists>v. embed_text ascii_lower (Some (ustr ''Rust systems'')) 384 = Inr v
          \<and> length v = nat 384)
   \<and> (\<exists>v. import_embed_text ascii_lower (Some (ustr ''Rust systems'')) 384 = Inr v
          \<and> length v = nat 384)
   \<and> tokenize ascii_lower None = []
   \<and> embed_text ascii_lower None 384 = Inr (replicate (nat 384) 0)
   \<and> import_embed_text ascii_lower (Some []) 384 = Inr (replicate (nat 384) 0)"
proof -
  have p: "(0::int) < 384" by simp
  have e: "ascii_lower [] = []" by (simp add: ascii_lower_def)
  from embedding_total [OF p, of ascii_lower "Some (ustr ''Rust systems'')" "ustr ''Rust systems''"]
  show ?thesis using p e by blast
qed

text \<open>
  C10. The two copies of \<^verbatim>\<open>embed_text\<close>, and their tokenizations, give the same
  result on every string and every \<open>dim\<close> (also where that result is an exception,
  for a \<open>dim\<close> that is not positive).
\<close>

theorem embed_text_copies_agree:
  "import_tokenize lower (Some s) = Inr (tokenize lower (Some s))
   \<and> import_embed_text lower (Some s) dimen = embed_text lower (Some s) dimen"
  by (simp add: import_embed_text_def import_tokenize_def embed_text_def tokenize_def)

end
